theory Spec2Isabelle
  imports Complex_Main "HOL-Library.AList" "HOL-Library.Multiset"
begin

section \<open>JavaScript values\<close>

text \<open>
  The dashboard (\<^verbatim>\<open>src/app/page.tsx\<close>) and the chat centre (\<^verbatim>\<open>src/unnamed/part_000\<close>)
  are TypeScript. Their \<^verbatim>\<open>number\<close> is modelled by the type \<open>number\<close> below: a
  rational, or one of the three non-finite values that a division can produce. The
  arithmetic is exact: the rounding error of binary floating point and the sign of zero
  are outside the model. A statement whose truth of the program depends on the sums
  being exact is made for whole amounts (\<open>whole_amounts\<close> below), on which the double
  arithmetic of the program and the arithmetic here agree. Numbers stored in the records
  (amounts, limits, targets) are finite and are kept as \<open>rat\<close>; values computed from them
  are \<open>number\<close>.

  A JavaScript string is a sequence of UTF-16 code units, modelled as a list of natural
  numbers. \<open>utf16\<close> writes an ASCII literal in that form.
\<close>

datatype number = Fin rat | PosInf | NegInf | NaN

type_synonym jsstring = "nat list"

definition utf16 :: "string \<Rightarrow> jsstring" where
  "utf16 s = map of_char s"

fun num_neg :: "number \<Rightarrow> number" where
  "num_neg (Fin a) = Fin (- a)"
| "num_neg PosInf = NegInf"
| "num_neg NegInf = PosInf"
| "num_neg NaN = NaN"

fun num_add :: "number \<Rightarrow> number \<Rightarrow> number" where
  "num_add (Fin a) (Fin b) = Fin (a + b)"
| "num_add NaN _ = NaN"
| "num_add _ NaN = NaN"
| "num_add PosInf NegInf = NaN"
| "num_add NegInf PosInf = NaN"
| "num_add PosInf _ = PosInf"
| "num_add _ PosInf = PosInf"
| "num_add NegInf _ = NegInf"
| "num_add _ NegInf = NegInf"

definition num_sub :: "number \<Rightarrow> number \<Rightarrow> number" where
  "num_sub a b = num_add a (num_neg b)"

text \<open>The sign of a non-zero number, as a number of infinite magnitude.\<close>

definition inf_of_sign :: "bool \<Rightarrow> number" where
  "inf_of_sign positive = (if positive then PosInf else NegInf)"

fun num_mul :: "number \<Rightarrow> number \<Rightarrow> number" where
  "num_mul (Fin a) (Fin b) = Fin (a * b)"
| "num_mul NaN _ = NaN"
| "num_mul _ NaN = NaN"
| "num_mul (Fin a) PosInf = (if a = 0 then NaN else inf_of_sign (0 < a))"
| "num_mul (Fin a) NegInf = (if a = 0 then NaN else inf_of_sign (a < 0))"
| "num_mul PosInf (Fin b) = (if b = 0 then NaN else inf_of_sign (0 < b))"
| "num_mul NegInf (Fin b) = (if b = 0 then NaN else inf_of_sign (b < 0))"
| "num_mul PosInf PosInf = PosInf"
| "num_mul NegInf NegInf = PosInf"
| "num_mul PosInf NegInf = NegInf"
| "num_mul NegInf PosInf = NegInf"

text \<open>
  Division never raises in JavaScript: a finite non-zero number over zero is an infinity
  of its sign, zero over zero is NaN.
\<close>

fun num_div :: "number \<Rightarrow> number \<Rightarrow> number" where
  "num_div (Fin a) (Fin b) =
     (if b = 0 then (if a = 0 then NaN else inf_of_sign (0 < a)) else Fin (a / b))"
| "num_div NaN _ = NaN"
| "num_div _ NaN = NaN"
| "num_div (Fin a) PosInf = Fin 0"
| "num_div (Fin a) NegInf = Fin 0"
| "num_div PosInf (Fin b) = inf_of_sign (0 \<le> b)"
| "num_div NegInf (Fin b) = inf_of_sign (b < 0)"
| "num_div PosInf PosInf = NaN"
| "num_div PosInf NegInf = NaN"
| "num_div NegInf PosInf = NaN"
| "num_div NegInf NegInf = NaN"

text \<open>\<^verbatim>\<open>a < b\<close> and \<^verbatim>\<open>a > b\<close>: false as soon as one side is NaN.\<close>

fun num_lt :: "number \<Rightarrow> number \<Rightarrow> bool" where
  "num_lt (Fin a) (Fin b) = (a < b)"
| "num_lt NaN _ = False"
| "num_lt _ NaN = False"
| "num_lt PosInf _ = False"
| "num_lt _ NegInf = False"
| "num_lt NegInf _ = True"
| "num_lt _ PosInf = True"

definition num_gt :: "number \<Rightarrow> number \<Rightarrow> bool" where
  "num_gt a b = num_lt b a"

text \<open>\<^verbatim>\<open>Math.min\<close> and \<^verbatim>\<open>Math.max\<close> of two arguments: NaN if either is NaN.\<close>

definition Math_min :: "number \<Rightarrow> number \<Rightarrow> number" where
  "Math_min a b = (if a = NaN \<or> b = NaN then NaN else if num_lt b a then b else a)"

definition Math_max :: "number \<Rightarrow> number \<Rightarrow> number" where
  "Math_max a b = (if a = NaN \<or> b = NaN then NaN else if num_lt a b then b else a)"

text \<open>
  \<^verbatim>\<open>Math.round\<close>: the nearest integer, a tie going up (\<^verbatim>\<open>Math.round(2.5) = 3\<close>,
  \<^verbatim>\<open>Math.round(-2.5) = -2\<close>); the non-finite values are returned as they are.
\<close>

fun Math_round :: "number \<Rightarrow> number" where
  "Math_round (Fin a) = Fin (of_int \<lfloor>a + 1 / 2\<rfloor>)"
| "Math_round x = x"

text \<open>Truthiness of a number, and \<^verbatim>\<open>a || b\<close> on numbers: 0 and NaN are falsy.\<close>

fun truthy :: "number \<Rightarrow> bool" where
  "truthy (Fin a) = (a \<noteq> 0)"
| "truthy NaN = False"
| "truthy _ = True"

definition num_or :: "number \<Rightarrow> number \<Rightarrow> number" where
  "num_or a b = (if truthy a then a else b)"

text \<open>\<^verbatim>\<open>xs.reduce((s, x) => s + f(x), 0)\<close> over finite numbers.\<close>

definition reduce_sum :: "('a \<Rightarrow> rat) \<Rightarrow> 'a list \<Rightarrow> rat" where
  "reduce_sum f xs = foldl (\<lambda>s x. s + f x) 0 xs"

section \<open>The dashboard's data (\<^verbatim>\<open>src/app/page.tsx\<close>)\<close>

datatype expense_id = IdString jsstring | IdNumber rat

datatype mood = Happy | Neutral | Stressed | Regret

datatype priority = High | Medium | Low

record Expense =
  id :: expense_id
  amount :: rat
  category :: jsstring
  date :: jsstring
  title :: "jsstring option"
  tags :: "jsstring list option"
  mood :: "mood option"
  confidence :: "rat option"
  predicted :: "bool option"
  anomaly :: "bool option"

record Budget =
  category :: jsstring
  limit :: rat
  rollover :: "bool option"
  smartLimit :: "number option"
  priority :: "priority option"

record FinancialGoal =
  id :: jsstring
  title :: jsstring
  target :: rat
  current :: rat
  deadline :: jsstring
  category :: jsstring
  priority :: rat

record FinancialHealthScore =
  overall :: number
  spending :: number
  saving :: number
  budgeting :: number
  planning :: number

section \<open>Financial health score: \<^verbatim>\<open>calculateFinancialHealth\<close>\<close>

text \<open>
  The four local constants of \<^verbatim>\<open>calculateFinancialHealth\<close>, then the record it stores.
  \<^verbatim>\<open>financialGoals[0]?.current\<close> is \<^verbatim>\<open>undefined\<close> on an empty list, and
  \<^verbatim>\<open>undefined / undefined\<close> is NaN.
\<close>

definition spendingScore :: "Expense list \<Rightarrow> Budget list \<Rightarrow> number" where
  "spendingScore expenses budgets =
     (let totalSpent = reduce_sum amount expenses;
          totalBudget = reduce_sum limit budgets
      in if 0 < totalBudget
         then Math_max (Fin 0)
                (num_sub (Fin 100) (num_mul (num_div (Fin totalSpent) (Fin totalBudget)) (Fin 100)))
         else Fin 50)"

definition first_goal_field :: "(FinancialGoal \<Rightarrow> rat) \<Rightarrow> FinancialGoal list \<Rightarrow> number" where
  "first_goal_field f goals = (case goals of [] \<Rightarrow> NaN | g # _ \<Rightarrow> Fin (f g))"

definition savingScore :: "FinancialGoal list \<Rightarrow> number" where
  "savingScore goals =
     Math_min (Fin 100)
       (num_or (num_mul (num_div (first_goal_field current goals) (first_goal_field target goals))
                  (Fin 100))
               (Fin 0))"

definition budgetingScore :: "Budget list \<Rightarrow> number" where
  "budgetingScore budgets = (if 0 < length budgets then Fin 80 else Fin 20)"

definition planningScore :: "FinancialGoal list \<Rightarrow> number" where
  "planningScore goals = (if 0 < length goals then Fin 75 else Fin 25)"

definition mean4 :: "number \<Rightarrow> number \<Rightarrow> number \<Rightarrow> number \<Rightarrow> number" where
  "mean4 a b c d = num_div (num_add (num_add (num_add a b) c) d) (Fin 4)"

definition calculateFinancialHealth ::
  "Expense list \<Rightarrow> Budget list \<Rightarrow> FinancialGoal list \<Rightarrow> FinancialHealthScore" where
  "calculateFinancialHealth expenses budgets financialGoals =
     (let spendingScore = spendingScore expenses budgets;
          savingScore = savingScore financialGoals;
          budgetingScore = budgetingScore budgets;
          planningScore = planningScore financialGoals;
          overall = Math_round (mean4 spendingScore savingScore budgetingScore planningScore)
      in \<lparr> overall = overall,
           spending = Math_round spendingScore,
           saving = Math_round savingScore,
           budgeting = Math_round budgetingScore,
           planning = Math_round planningScore \<rparr>)"

section \<open>Aggregation: \<^verbatim>\<open>totalsByCategory\<close>, \<^verbatim>\<open>anomalousExpenses\<close>\<close>

text \<open>
  The object \<^verbatim>\<open>map: Record<string, number> = {}\<close> is a plain object, so its keys are
  not only the ones written to it: a key that names a member of \<^verbatim>\<open>Object.prototype\<close>
  reads as that member. The members are functions, and for \<^verbatim>\<open>__proto__\<close> the prototype
  object itself; each is truthy and neither null nor undefined, and a number added to
  it gives a string that no conversion reads as a number. Writing a key makes an entry
  of the object's own, except that \<^verbatim>\<open>__proto__\<close> ignores a string written to it.

  So a value held by the map is a number (\<open>Num\<close>) or such a string (\<open>Text\<close>), and the
  map is an association list of its own entries: \<open>AList.update\<close> overwrites the entry of
  a key that is present and appends the entry of a new key, \<open>map_of\<close> reads. The list
  is in insertion order; \<^verbatim>\<open>Object.entries\<close> lists the same entries, the keys that are
  array indices first. The field \<^verbatim>\<open>value\<close> of an entry is written \<open>value'\<close>.
\<close>

definition inherited_names :: "jsstring list" where
  "inherited_names =
     map utf16
       [''constructor'', ''__defineGetter__'', ''__defineSetter__'', ''hasOwnProperty'',
        ''__lookupGetter__'', ''__lookupSetter__'', ''isPrototypeOf'',
        ''propertyIsEnumerable'', ''toString'', ''valueOf'', ''__proto__'',
        ''toLocaleString'']"

definition inherited :: "jsstring \<Rightarrow> bool" where
  "inherited k \<longleftrightarrow> k \<in> set inherited_names"

datatype cell = Num rat | Text

text \<open>The number a value converts to in a product or a quotient: a string of the map is NaN.\<close>

fun cell_number :: "cell \<Rightarrow> number" where
  "cell_number (Num v) = Fin v"
| "cell_number Text = NaN"

record CategoryTotal =
  name :: jsstring
  value' :: cell

text \<open>
  One step of \<^verbatim>\<open>filtered.forEach((t) => (map[t.category] = (map[t.category] ?? 0) + t.amount))\<close>.
\<close>

definition add_to_category :: "(jsstring \<times> cell) list \<Rightarrow> Expense \<Rightarrow> (jsstring \<times> cell) list" where
  "add_to_category m t =
     (if Expense.category t = utf16 ''__proto__'' then m
      else AList.update (Expense.category t)
             (case map_of m (Expense.category t) of
                Some (Num v) \<Rightarrow> Num (v + amount t)
              | Some Text \<Rightarrow> Text
              | None \<Rightarrow> if inherited (Expense.category t) then Text else Num (0 + amount t))
             m)"

definition entries :: "(jsstring \<times> cell) list \<Rightarrow> CategoryTotal list" where
  "entries m = map (\<lambda>(n, v). \<lparr> name = n, value' = v \<rparr>) m"

definition totalsByCategory :: "Expense list \<Rightarrow> CategoryTotal list" where
  "totalsByCategory filtered = entries (foldl add_to_category [] filtered)"

definition totalSpend :: "Expense list \<Rightarrow> rat" where
  "totalSpend filtered = reduce_sum amount filtered"

text \<open>
  The chat centre has a \<^verbatim>\<open>totalsByCategory\<close> of its own, over its own \<^verbatim>\<open>Expense\<close> type
  and a list that is \<^verbatim>\<open>null\<close> until loaded; it reads the running total with
  \<^verbatim>\<open>map[e.category] || 0\<close>.
\<close>

record ChatExpense =
  id :: expense_id
  category :: jsstring
  amount :: rat
  date :: jsstring

definition add_to_category_chat ::
  "(jsstring \<times> cell) list \<Rightarrow> ChatExpense \<Rightarrow> (jsstring \<times> cell) list" where
  "add_to_category_chat m e =
     (if ChatExpense.category e = utf16 ''__proto__'' then m
      else AList.update (ChatExpense.category e)
             (case map_of m (ChatExpense.category e) of
                Some (Num v) \<Rightarrow> Num ((if v \<noteq> 0 then v else 0) + ChatExpense.amount e)
              | Some Text \<Rightarrow> Text
              | None \<Rightarrow>
                  if inherited (ChatExpense.category e) then Text
                  else Num (0 + ChatExpense.amount e))
             m)"

definition totalsByCategory_chat :: "ChatExpense list option \<Rightarrow> CategoryTotal list" where
  "totalsByCategory_chat expenses =
     (case expenses of
        None \<Rightarrow> []
      | Some es \<Rightarrow> entries (foldl add_to_category_chat [] es))"

text \<open>
  \<^verbatim>\<open>avgByCategory\<close> is a plain object as well. The value read for an expense is doubled
  before the comparison; \<open>doubled_average\<close> is that product: of the entry or 0 when the
  entry is falsy, of 0 when the key reads as undefined, and NaN when the key reads as
  an inherited member.
\<close>

definition avgByCategory :: "Expense list \<Rightarrow> CategoryTotal list \<Rightarrow> (jsstring \<times> number) list" where
  "avgByCategory filtered totals =
     foldl (\<lambda>acc cat.
              if name cat = utf16 ''__proto__'' then acc
              else AList.update (name cat)
                     (num_div (cell_number (value' cat))
                        (Fin (of_nat (length (filter (\<lambda>e. Expense.category e = name cat) filtered)))))
                     acc)
           [] totals"

definition doubled_average :: "(jsstring \<times> number) list \<Rightarrow> jsstring \<Rightarrow> number" where
  "doubled_average avgs c =
     (case map_of avgs c of
        Some a \<Rightarrow> num_mul (num_or a (Fin 0)) (Fin 2)
      | None \<Rightarrow> if inherited c then NaN else num_mul (Fin 0) (Fin 2))"

definition anomalousExpenses :: "Expense list \<Rightarrow> Expense list" where
  "anomalousExpenses filtered =
     (let avgs = avgByCategory filtered (totalsByCategory filtered)
      in filter (\<lambda>expense.
            num_gt (Fin (Expense.amount expense)) (doubled_average avgs (Expense.category expense)))
          filtered)"

text \<open>
  The anomaly rule in the specification's words: the mean amount of a category within
  the filtered list, and the test against twice that mean.
\<close>

definition category_mean :: "Expense list \<Rightarrow> jsstring \<Rightarrow> rat" where
  "category_mean filtered c =
     sum_list (map Expense.amount (filter (\<lambda>t. Expense.category t = c) filtered))
       / of_nat (length (filter (\<lambda>t. Expense.category t = c) filtered))"

definition is_anomalous :: "Expense list \<Rightarrow> Expense \<Rightarrow> bool" where
  "is_anomalous filtered t \<longleftrightarrow>
     2 * category_mean filtered (Expense.category t) < Expense.amount t"

text \<open>
  Two conditions on a list of transactions. Its categories are plain when none of them
  names a member of \<^verbatim>\<open>Object.prototype\<close>. Its amounts are whole when each is a
  non-negative integer and their sum is below \<open>2 ^ 40\<close>: on such amounts every sum the
  code forms in double arithmetic is exact, and every quotient, product, comparison and
  rounding it forms of those sums comes out as in exact arithmetic.
\<close>

definition plain_categories :: "jsstring list \<Rightarrow> bool" where
  "plain_categories cs \<longleftrightarrow> list_all (\<lambda>c. \<not> inherited c) cs"

definition whole_amounts :: "rat list \<Rightarrow> bool" where
  "whole_amounts ns \<longleftrightarrow>
     list_all (\<lambda>a. of_int \<lfloor>a\<rfloor> = a \<and> 0 \<le> a) ns \<and> sum_list ns < 2 ^ 40"

text \<open>The rational held by a numeric value of the map.\<close>

fun cell_rat :: "cell \<Rightarrow> rat" where
  "cell_rat (Num v) = v"
| "cell_rat Text = 0"

section \<open>Trend series: \<^verbatim>\<open>trendData\<close>\<close>

text \<open>
  What the series takes from the runtime is a parameter: the calendar day of a
  transaction's date (\<^verbatim>\<open>new Date(t.date).toDateString()\<close>), the calendar day and the label
  of the day \<open>k\<close> days from today (\<^verbatim>\<open>d.toDateString()\<close>, \<^verbatim>\<open>d.toISOString().slice(5, 10)\<close>),
  and the draw of \<^verbatim>\<open>Math.random()\<close> made for the \<open>i\<close>-th predicted day.
\<close>

record TrendEnv =
  toDateString :: "jsstring \<Rightarrow> jsstring"
  dayString :: "int \<Rightarrow> jsstring"
  dayKey :: "int \<Rightarrow> jsstring"
  random :: "nat \<Rightarrow> rat"

record TrendDay =
  date :: jsstring
  spend :: number
  predicted :: "bool option"

definition sum_spend :: "TrendDay list \<Rightarrow> number" where
  "sum_spend days = foldl (\<lambda>s day. num_add s (spend day)) (Fin 0) days"

definition actualDay :: "TrendEnv \<Rightarrow> Expense list \<Rightarrow> nat \<Rightarrow> TrendDay" where
  "actualDay env filtered i =
     \<lparr> TrendDay.date = dayKey env (- int i),
       spend = Fin (reduce_sum Expense.amount
                 (filter (\<lambda>t. toDateString env (Expense.date t) = dayString env (- int i)) filtered)),
       predicted = None \<rparr>"

definition actualDays :: "TrendEnv \<Rightarrow> Expense list \<Rightarrow> TrendDay list" where
  "actualDays env filtered = map (actualDay env filtered) (rev [0..<12])"

definition jitter :: "TrendEnv \<Rightarrow> nat \<Rightarrow> number" where
  "jitter env i = num_add (Fin (4 / 5)) (num_mul (Fin (random env i)) (Fin (2 / 5)))"

definition predictedDay :: "TrendEnv \<Rightarrow> TrendDay list \<Rightarrow> nat \<Rightarrow> TrendDay" where
  "predictedDay env days i =
     (let avgSpend = num_div (sum_spend days) (Fin (of_nat (length days)));
          predictedSpend = Math_round (num_mul avgSpend (jitter env i))
      in \<lparr> TrendDay.date = dayKey env (int i), spend = predictedSpend, predicted = Some True \<rparr>)"

definition trendData :: "TrendEnv \<Rightarrow> Expense list \<Rightarrow> TrendDay list" where
  "trendData env filtered =
     foldl (\<lambda>days i. days @ [predictedDay env days i]) (actualDays env filtered) [1..<6]"

section \<open>Monthly projection: \<^verbatim>\<open>kpiData\<close>\<close>

text \<open>
  \<open>dayOfMonth\<close> stands for \<^verbatim>\<open>new Date().getDate()\<close>, which the runtime keeps between 1
  and 31. The function divides by it without a test of its own.
\<close>

datatype trend = Up | Down | Stable

definition avgDaily :: "rat \<Rightarrow> nat \<Rightarrow> number" where
  "avgDaily total_spend dayOfMonth = num_div (Fin total_spend) (Fin (of_nat dayOfMonth))"

definition projectedMonthly :: "rat \<Rightarrow> nat \<Rightarrow> number" where
  "projectedMonthly total_spend dayOfMonth = num_mul (avgDaily total_spend dayOfMonth) (Fin 30)"

definition monthlySpendTrend :: "rat \<Rightarrow> nat \<Rightarrow> trend" where
  "monthlySpendTrend total_spend dayOfMonth =
     (if num_gt (projectedMonthly total_spend dayOfMonth) (Fin total_spend) then Up else Down)"

section \<open>Budget optimisation: \<^verbatim>\<open>optimizeBudget\<close>\<close>

record Dashboard =
  budgets :: "Budget list"
  aiSuggestion :: "jsstring option"

text \<open>
  \<^verbatim>\<open>categorySpend\<close> is the number that the entry found contributes to the product with
  1.1: a string total is truthy and multiplies to NaN.
\<close>

definition categorySpend :: "Expense list \<Rightarrow> jsstring \<Rightarrow> number" where
  "categorySpend filtered c =
     (case find (\<lambda>t. name t = c) (totalsByCategory filtered) of
        None \<Rightarrow> Fin 0
      | Some t \<Rightarrow>
          (case value' t of
             Num v \<Rightarrow> num_or (Fin v) (Fin 0)
           | Text \<Rightarrow> NaN))"

definition currentBudget :: "Budget list \<Rightarrow> jsstring \<Rightarrow> number" where
  "currentBudget bs c =
     (case find (\<lambda>b. Budget.category b = c) bs of
        None \<Rightarrow> Fin 0
      | Some b \<Rightarrow> num_or (Fin (limit b)) (Fin 0))"

definition optimizedAmount :: "Expense list \<Rightarrow> jsstring \<Rightarrow> number" where
  "optimizedAmount filtered c = Math_round (num_mul (categorySpend filtered c) (Fin (11 / 10)))"

text \<open>The rupee sign is the code unit 8377; a line of the template ends with 10.\<close>

definition suggestionText :: "(number \<Rightarrow> jsstring) \<Rightarrow> jsstring \<Rightarrow> number \<Rightarrow> number \<Rightarrow> jsstring" where
  "suggestionText toLocaleString c optimized cur =
     utf16 ''Smart Budget Optimization for '' @ c @ utf16 '': '' @ [10]
     @ utf16 ''      Based on your spending pattern, suggested limit is '' @ [8377]
     @ toLocaleString optimized @ utf16 '' '' @ [10]
     @ utf16 ''      (current: '' @ [8377] @ toLocaleString cur @ utf16 '')''"

definition optimizeBudget ::
  "(number \<Rightarrow> jsstring) \<Rightarrow> Expense list \<Rightarrow> jsstring \<Rightarrow> Dashboard \<Rightarrow> Dashboard" where
  "optimizeBudget toLocaleString filtered c st =
     (let optimized = optimizedAmount filtered c;
          cur = currentBudget (budgets st) c
      in st \<lparr> budgets :=
                map (\<lambda>b. if Budget.category b = c then b \<lparr> smartLimit := Some optimized \<rparr> else b)
                    (budgets st),
              aiSuggestion := Some (suggestionText toLocaleString c optimized cur) \<rparr>)"

section \<open>The chat centre's data (\<^verbatim>\<open>src/unnamed/part_000\<close>)\<close>

datatype Role = User | Assistant | System

record Message =
  id :: jsstring
  role :: Role
  content :: jsstring
  ts :: jsstring
  pinned :: "bool option"

record Chat =
  id :: jsstring
  title :: jsstring
  createdAt :: jsstring
  messages :: "Message list"

text \<open>\<^verbatim>\<open>Partial<Message>\<close>: a field that is present replaces the message's.\<close>

record MessagePatch =
  id :: "jsstring option"
  role :: "Role option"
  content :: "jsstring option"
  ts :: "jsstring option"
  pinned :: "bool option"

definition content_patch :: "jsstring \<Rightarrow> MessagePatch" where
  "content_patch c =
     \<lparr> MessagePatch.id = None, role = None, content = Some c, ts = None, pinned = None \<rparr>"

definition apply_patch :: "Message \<Rightarrow> MessagePatch \<Rightarrow> Message" where
  "apply_patch m p =
     \<lparr> Message.id = (case MessagePatch.id p of None \<Rightarrow> Message.id m | Some v \<Rightarrow> v),
       role = (case MessagePatch.role p of None \<Rightarrow> Message.role m | Some v \<Rightarrow> v),
       content = (case MessagePatch.content p of None \<Rightarrow> Message.content m | Some v \<Rightarrow> v),
       ts = (case MessagePatch.ts p of None \<Rightarrow> Message.ts m | Some v \<Rightarrow> v),
       pinned = (case MessagePatch.pinned p of None \<Rightarrow> Message.pinned m | Some v \<Rightarrow> Some v) \<rparr>"

text \<open>
  The state of the component that the message operations and the send operation touch.
  A call of a React setter with an updater function is the application of that function
  to the state; calls take effect in the order they are made.
\<close>

datatype tone = Concise | Friendly | Formal

record ChatCenter =
  chats :: "Chat list"
  composerText :: jsstring
  sending :: bool
  streamedTextTemp :: "(jsstring \<times> jsstring) list"
  systemPrompt :: jsstring
  tone :: tone
  streamEnabled :: bool
  maxTokens :: rat

section \<open>Message operations\<close>

text \<open>
  \<open>stamp\<close> is what \<^verbatim>\<open>GEN_ID()\<close> and \<^verbatim>\<open>nowISO()\<close> return for the new message. Each
  operation is given first as the updater passed to \<^verbatim>\<open>setChats\<close>, then on the state.
\<close>

definition new_message :: "jsstring \<times> jsstring \<Rightarrow> Role \<Rightarrow> jsstring \<Rightarrow> Message" where
  "new_message stamp r c =
     \<lparr> Message.id = fst stamp, role = r, content = c, ts = snd stamp, pinned = None \<rparr>"

definition append_message :: "jsstring \<Rightarrow> Message \<Rightarrow> Chat list \<Rightarrow> Chat list" where
  "append_message chatId m prev =
     map (\<lambda>c. if Chat.id c = chatId then c \<lparr> messages := messages c @ [m] \<rparr> else c) prev"

definition patch_message :: "jsstring \<Rightarrow> jsstring \<Rightarrow> MessagePatch \<Rightarrow> Chat list \<Rightarrow> Chat list" where
  "patch_message chatId messageId p prev =
     map (\<lambda>c. if Chat.id c = chatId
               then c \<lparr> messages :=
                         map (\<lambda>m. if Message.id m = messageId then apply_patch m p else m)
                             (messages c) \<rparr>
               else c) prev"

definition remove_message :: "jsstring \<Rightarrow> jsstring \<Rightarrow> Chat list \<Rightarrow> Chat list" where
  "remove_message chatId messageId prev =
     map (\<lambda>c. if Chat.id c = chatId
               then c \<lparr> messages := filter (\<lambda>m. Message.id m \<noteq> messageId) (messages c) \<rparr>
               else c) prev"

definition addMessageToChat ::
  "jsstring \<times> jsstring \<Rightarrow> jsstring \<Rightarrow> Role \<Rightarrow> jsstring \<Rightarrow> ChatCenter \<Rightarrow> Message \<times> ChatCenter" where
  "addMessageToChat stamp chatId r c st =
     (let m = new_message stamp r c
      in (m, st \<lparr> chats := append_message chatId m (chats st) \<rparr>))"

definition updateMessageInChat ::
  "jsstring \<Rightarrow> jsstring \<Rightarrow> MessagePatch \<Rightarrow> ChatCenter \<Rightarrow> ChatCenter" where
  "updateMessageInChat chatId messageId p st =
     st \<lparr> chats := patch_message chatId messageId p (chats st) \<rparr>"

definition deleteMessageFromChat :: "jsstring \<Rightarrow> jsstring \<Rightarrow> ChatCenter \<Rightarrow> ChatCenter" where
  "deleteMessageFromChat chatId messageId st =
     st \<lparr> chats := remove_message chatId messageId (chats st) \<rparr>"

section \<open>Strings and JSON values\<close>

text \<open>
  \<^verbatim>\<open>String.prototype.trim\<close> removes the white space and line terminators of ECMAScript
  from both ends; \<^verbatim>\<open>s.split("\n")\<close> cuts at every code unit 10 and always returns at
  least one piece.
\<close>

definition isWhiteSpace :: "nat \<Rightarrow> bool" where
  "isWhiteSpace c \<longleftrightarrow>
     c \<in> {9, 10, 11, 12, 13, 32, 160, 5760, 8232, 8233, 8239, 8287, 12288, 65279}
     \<or> (8192 \<le> c \<and> c \<le> 8202)"

definition trim :: "jsstring \<Rightarrow> jsstring" where
  "trim s = rev (dropWhile isWhiteSpace (rev (dropWhile isWhiteSpace s)))"

fun split_on :: "nat \<Rightarrow> jsstring \<Rightarrow> jsstring list" where
  "split_on sep [] = [[]]"
| "split_on sep (c # cs) =
     (if c = sep then [] # split_on sep cs
      else (case split_on sep cs of
              [] \<Rightarrow> [[c]]
            | piece # pieces \<Rightarrow> (c # piece) # pieces))"

fun decimal :: "nat \<Rightarrow> jsstring" where
  "decimal n = (if n < 10 then [48 + n] else decimal (n div 10) @ [48 + n mod 10])"

datatype json =
    JNull
  | JBool bool
  | JNumber rat
  | JString jsstring
  | JArray "json list"
  | JObject "(jsstring \<times> json) list"

text \<open>
  A value read from a parsed body is a \<open>json option\<close>, \<open>None\<close> standing for
  \<^verbatim>\<open>undefined\<close>. \<open>property v k\<close> is \<^verbatim>\<open>v?.k\<close> for the keys the code reads (none of them is a
  member of a string, an array or a prototype); \<open>coalesce\<close> is \<^verbatim>\<open>??\<close>.
\<close>

fun property :: "json option \<Rightarrow> jsstring \<Rightarrow> json option" where
  "property (Some (JObject kvs)) k = map_of kvs k"
| "property _ k = None"

fun nullish :: "json option \<Rightarrow> bool" where
  "nullish None = True"
| "nullish (Some JNull) = True"
| "nullish _ = False"

definition coalesce :: "json option \<Rightarrow> json option \<Rightarrow> json option" where
  "coalesce a b = (if nullish a then b else a)"

text \<open>
  The conversion of a value to a string (\<^verbatim>\<open>String(v)\<close>, a template literal): a string is
  itself; for the other values the runtime's conversion is the parameter \<open>str\<close>.
\<close>

definition to_string :: "(json option \<Rightarrow> jsstring) \<Rightarrow> json option \<Rightarrow> jsstring" where
  "to_string str v = (case v of Some (JString s) \<Rightarrow> s | _ \<Rightarrow> str v)"

section \<open>Streaming: \<^verbatim>\<open>streamTextFromResponse\<close>\<close>

text \<open>
  A call either returns or throws; the state reached is kept in both cases, since the
  updates made before an exception stay made.
\<close>

datatype 's outcome = Returned 's | Threw jsstring 's

text \<open>
  One \<^verbatim>\<open>reader.read()\<close> delivers a decoded chunk or rejects; the end of the list is the
  read that reports \<^verbatim>\<open>done\<close>. A response carries what the code asks of it: \<^verbatim>\<open>ok\<close>,
  \<^verbatim>\<open>status\<close>, the body stream (\<open>None\<close> when \<^verbatim>\<open>res.body\<close> is null), and the outcomes of
  \<^verbatim>\<open>res.json()\<close> and \<^verbatim>\<open>res.text()\<close> (\<open>Inl\<close> the message of the rejection).
\<close>

datatype read = Chunk jsstring | ReadFails jsstring

record Response =
  ok :: bool
  status :: nat
  body :: "read list option"
  json_result :: "jsstring + json"
  text_result :: "jsstring + jsstring"

definition reply_candidate :: "json \<Rightarrow> json option" where
  "reply_candidate parsed =
     coalesce
       (coalesce
          (coalesce (property (Some parsed) (utf16 ''reply'')) (property (Some parsed) (utf16 ''content'')))
          (property (property (Some parsed) (utf16 ''message'')) (utf16 ''content'')))
       (property (Some parsed) (utf16 ''response''))"

fun process_lines ::
  "(jsstring \<Rightarrow> json option) \<Rightarrow> (jsstring \<Rightarrow> 's \<Rightarrow> 's) \<Rightarrow> jsstring list \<Rightarrow> 's \<Rightarrow> 's" where
  "process_lines JSON_parse onChunk [] s = s"
| "process_lines JSON_parse onChunk (line # lines) s =
     (if trim line = [] then process_lines JSON_parse onChunk lines s
      else (case JSON_parse line of
              None \<Rightarrow> process_lines JSON_parse onChunk lines s
            | Some parsed \<Rightarrow>
                (case reply_candidate parsed of
                   Some (JString candidate) \<Rightarrow>
                     process_lines JSON_parse onChunk lines (onChunk candidate s)
                 | _ \<Rightarrow> process_lines JSON_parse onChunk lines s)))"

fun read_loop ::
  "(jsstring \<Rightarrow> json option) \<Rightarrow> (jsstring \<Rightarrow> 's \<Rightarrow> 's) \<Rightarrow> read list \<Rightarrow> jsstring \<Rightarrow> 's
     \<Rightarrow> 's outcome" where
  "read_loop JSON_parse onChunk [] buffer s = Returned s"
| "read_loop JSON_parse onChunk (ReadFails e # _) buffer s = Threw e s"
| "read_loop JSON_parse onChunk (Chunk chunk # rest) buffer s =
     (let pieces = split_on 10 (buffer @ chunk);
          s1 = onChunk chunk s;
          s2 = process_lines JSON_parse onChunk (butlast pieces) s1
      in read_loop JSON_parse onChunk rest (last pieces) s2)"

definition streamTextFromResponse ::
  "(jsstring \<Rightarrow> json option) \<Rightarrow> Response \<Rightarrow> (jsstring \<Rightarrow> 's \<Rightarrow> 's) \<Rightarrow> ('s \<Rightarrow> 's) option \<Rightarrow> 's
     \<Rightarrow> 's outcome" where
  "streamTextFromResponse JSON_parse res onChunk onComplete s =
     (let complete = (case onComplete of None \<Rightarrow> (\<lambda>x. x) | Some f \<Rightarrow> f)
      in case body res of
           None \<Rightarrow>
             (case text_result res of
                Inl e \<Rightarrow> Threw e s
              | Inr t \<Rightarrow> Returned (complete (onChunk t s)))
         | Some reads \<Rightarrow>
             (case read_loop JSON_parse onChunk reads [] s of
                Returned s' \<Rightarrow> Returned (complete s')
              | Threw e s' \<Rightarrow> Threw e s'))"

section \<open>Sending a message: \<^verbatim>\<open>sendChatMessage\<close>\<close>

record Payload =
  message :: jsstring
  chatId :: jsstring
  systemPrompt :: jsstring
  tone :: tone
  stream :: bool
  maxTokens :: rat

datatype fetch_result = Rejects jsstring | Resolves Response

text \<open>
  What one send takes from outside the component: the identifiers and timestamps of the
  two new messages, the outcome of \<^verbatim>\<open>fetch\<close>, and the library functions
  \<^verbatim>\<open>JSON.parse\<close>, \<^verbatim>\<open>JSON.stringify\<close> and the conversion to a string.
\<close>

record SendEnv =
  userStamp :: "jsstring \<times> jsstring"
  assistantStamp :: "jsstring \<times> jsstring"
  fetch :: "Payload \<Rightarrow> fetch_result"
  JSON_parse :: "jsstring \<Rightarrow> json option"
  JSON_stringify :: "json \<Rightarrow> jsstring"
  String_of :: "json option \<Rightarrow> jsstring"

text \<open>The three texts the code writes: the hourglass is 9203, the warning sign 9888, 65039.\<close>

definition thinking :: jsstring where
  "thinking = [9203] @ utf16 '' Assistant is thinking...''"

definition warning :: jsstring where
  "warning = [9888, 65039] @ utf16 '' ''"

definition network_error :: jsstring where
  "network_error = [9888, 65039] @ utf16 '' Network error: ''"

definition errorText :: "SendEnv \<Rightarrow> Response \<Rightarrow> jsstring" where
  "errorText env res =
     (case json_result res of
        Inr j \<Rightarrow>
          to_string (String_of env)
            (coalesce
               (coalesce (property (Some j) (utf16 ''error'')) (property (Some j) (utf16 ''message'')))
               (Some (JString (JSON_stringify env j))))
      | Inl _ \<Rightarrow>
          (case text_result res of
             Inr t \<Rightarrow> t
           | Inl _ \<Rightarrow> utf16 ''Error '' @ decimal (status res)))"

text \<open>
  The streaming callbacks close over \<^verbatim>\<open>accumulated\<close>, so they run on the pair of that
  variable and the component's state.
\<close>

definition onChunk_send ::
  "jsstring \<Rightarrow> jsstring \<Rightarrow> jsstring \<Rightarrow> jsstring \<times> ChatCenter \<Rightarrow> jsstring \<times> ChatCenter" where
  "onChunk_send cid aid chunk acc_st =
     (let accumulated = fst acc_st @ chunk;
          st1 = updateMessageInChat cid aid (content_patch accumulated) (snd acc_st)
      in (accumulated,
          st1 \<lparr> streamedTextTemp := AList.update aid accumulated (streamedTextTemp st1) \<rparr>))"

definition onComplete_send :: "jsstring \<Rightarrow> jsstring \<times> ChatCenter \<Rightarrow> jsstring \<times> ChatCenter" where
  "onComplete_send aid acc_st =
     (fst acc_st,
      (snd acc_st) \<lparr> streamedTextTemp := AList.delete aid (streamedTextTemp (snd acc_st)) \<rparr>)"

definition reply_of :: "SendEnv \<Rightarrow> json \<Rightarrow> jsstring" where
  "reply_of env j =
     to_string (String_of env)
       (coalesce
          (coalesce
             (coalesce (property (Some j) (utf16 ''reply'')) (property (Some j) (utf16 ''response'')))
             (property (property (Some j) (utf16 ''message'')) (utf16 ''content'')))
          (Some (JString (String_of env (Some j)))))"

text \<open>The body of the \<^verbatim>\<open>try\<close> block, from the call of \<^verbatim>\<open>fetch\<close> on.\<close>

definition send_try ::
  "SendEnv \<Rightarrow> jsstring \<Rightarrow> jsstring \<Rightarrow> jsstring \<Rightarrow> ChatCenter \<Rightarrow> ChatCenter outcome" where
  "send_try env cid trimmed aid st =
     (let payload = \<lparr> message = trimmed, chatId = cid,
                       systemPrompt = ChatCenter.systemPrompt st, tone = ChatCenter.tone st,
                       stream = streamEnabled st, maxTokens = ChatCenter.maxTokens st \<rparr>
      in case fetch env payload of
           Rejects e \<Rightarrow> Threw e st
         | Resolves res \<Rightarrow>
             if \<not> ok res
             then Returned ((updateMessageInChat cid aid
                               (content_patch (warning @ errorText env res)) st)
                            \<lparr> sending := False \<rparr>)
             else if body res \<noteq> None \<and> streamEnabled st
             then (case streamTextFromResponse (JSON_parse env) res (onChunk_send cid aid)
                          (Some (onComplete_send aid)) ([], st) of
                     Returned acc_st \<Rightarrow> Returned (snd acc_st)
                   | Threw e acc_st \<Rightarrow> Threw e (snd acc_st))
             else (case json_result res of
                     Inl e \<Rightarrow> Threw e st
                   | Inr j \<Rightarrow>
                       Returned (updateMessageInChat cid aid (content_patch (reply_of env j)) st)))"

text \<open>
  The whole operation. An exception of the \<^verbatim>\<open>try\<close> block is caught by its \<^verbatim>\<open>catch\<close>
  clause, which writes the message of the error; \<^verbatim>\<open>finally\<close> clears \<^verbatim>\<open>sending\<close> on
  every path.
\<close>

definition sendChatMessage ::
  "SendEnv \<Rightarrow> jsstring \<Rightarrow> jsstring \<Rightarrow> ChatCenter \<Rightarrow> ChatCenter outcome" where
  "sendChatMessage env cid userText st =
     (if trim userText = [] then Returned st
      else
        let trimmed = trim userText;
            (userMsg, st1) = addMessageToChat (userStamp env) cid User trimmed st;
            (assistantMsg, st2) = addMessageToChat (assistantStamp env) cid Assistant thinking st1;
            aid = Message.id assistantMsg;
            st3 = st2 \<lparr> composerText := [], sending := True,
                        streamedTextTemp := AList.update aid [] (streamedTextTemp st2) \<rparr>
        in case send_try env cid trimmed aid st3 of
             Returned st4 \<Rightarrow> Returned (st4 \<lparr> sending := False \<rparr>)
           | Threw e st4 \<Rightarrow>
               Returned ((updateMessageInChat cid aid (content_patch (network_error @ e)) st4)
                         \<lparr> sending := False \<rparr>))"

section \<open>Initial data of the dashboard\<close>

text \<open>
  \<^verbatim>\<open>seedExpenses\<close>, the six records shown when the expenses cannot be loaded, and the
  initial budgets. \<open>isoDaysAgo k\<close> is the ISO text of the instant \<open>k\<close> days before now.
\<close>

definition seedExpenses :: "(nat \<Rightarrow> jsstring) \<Rightarrow> Expense list" where
  "seedExpenses isoDaysAgo =
     [\<lparr> Expense.id = IdString (utf16 ''1''), amount = 1200, category = utf16 ''Food'',
        date = isoDaysAgo 0, title = None, tags = None, mood = Some Happy,
        confidence = Some 95, predicted = None, anomaly = None \<rparr>,
      \<lparr> Expense.id = IdString (utf16 ''2''), amount = 450, category = utf16 ''Transport'',
        date = isoDaysAgo 1, title = None, tags = None, mood = Some Neutral,
        confidence = None, predicted = None, anomaly = None \<rparr>,
      \<lparr> Expense.id = IdString (utf16 ''3''), amount = 2800, category = utf16 ''Bills'',
        date = isoDaysAgo 3, title = None, tags = None, mood = Some Stressed,
        confidence = None, predicted = None, anomaly = None \<rparr>,
      \<lparr> Expense.id = IdString (utf16 ''4''), amount = 700, category = utf16 ''Entertainment'',
        date = isoDaysAgo 5, title = None, tags = None, mood = Some Happy,
        confidence = None, predicted = None, anomaly = None \<rparr>,
      \<lparr> Expense.id = IdString (utf16 ''5''), amount = 3500, category = utf16 ''Shopping'',
        date = isoDaysAgo 7, title = None, tags = None, mood = Some Regret,
        confidence = None, predicted = None, anomaly = Some True \<rparr>,
      \<lparr> Expense.id = IdString (utf16 ''6''), amount = 650, category = utf16 ''Food'',
        date = isoDaysAgo 10, title = None, tags = None, mood = Some Neutral,
        confidence = None, predicted = None, anomaly = None \<rparr>]"

definition initialBudgets :: "Budget list" where
  "initialBudgets =
     [\<lparr> Budget.category = utf16 ''Food'', limit = 8000, rollover = None, smartLimit = None,
        priority = Some High \<rparr>,
      \<lparr> Budget.category = utf16 ''Transport'', limit = 3000, rollover = None,
        smartLimit = None, priority = Some Medium \<rparr>,
      \<lparr> Budget.category = utf16 ''Shopping'', limit = 6000, rollover = None,
        smartLimit = None, priority = Some Low \<rparr>]"

text \<open>The sum of the amounts of one category, the total that the aggregation keeps for it.\<close>

definition category_total :: "Expense list \<Rightarrow> jsstring \<Rightarrow> rat" where
  "category_total xs c =
     sum_list (map Expense.amount (filter (\<lambda>t. Expense.category t = c) xs))"

section \<open>Finite values of a series\<close>

text \<open>
  The rational held by a finite number, the mean of the values of a series, and the
  statement that every value of a series is finite.
\<close>

definition finite_value :: "number \<Rightarrow> rat" where
  "finite_value x = (case x of Fin a \<Rightarrow> a | _ \<Rightarrow> 0)"

definition mean_spend :: "TrendDay list \<Rightarrow> rat" where
  "mean_spend days = sum_list (map (\<lambda>d. finite_value (spend d)) days) / of_nat (length days)"

definition finite_spends :: "TrendDay list \<Rightarrow> bool" where
  "finite_spends days \<longleftrightarrow> list_all (\<lambda>d. spend d = Fin (finite_value (spend d))) days"

section \<open>Arithmetic of the model\<close>

lemma floor_rat_divide_numeral [simp]:
  "\<lfloor>(numeral a / numeral b :: rat)\<rfloor> = numeral a div numeral b"
  using floor_divide_of_int_eq [of "numeral a" "numeral b", where ?'a = rat] by simp

lemma floor_rat_minus_divide_numeral [simp]:
  "\<lfloor>- (numeral a / numeral b :: rat)\<rfloor> = - numeral a div numeral b"
  using floor_divide_of_int_eq [of "- numeral a" "numeral b", where ?'a = rat] by simp

lemma floor_rat_one_divide_numeral [simp]:
  "\<lfloor>(1 / numeral b :: rat)\<rfloor> = 1 div numeral b"
  using floor_divide_of_int_eq [of 1 "numeral b", where ?'a = rat] by simp

lemma foldl_plus_sum_list: "foldl (\<lambda>s x. s + f x) a xs = a + sum_list (map f xs)"
  for a :: rat
  by (induction xs arbitrary: a) (simp_all add: add.assoc)

lemma reduce_sum_eq: "reduce_sum f xs = sum_list (map f xs)"
  by (simp add: reduce_sum_def foldl_plus_sum_list)

lemma reduce_sum_nonneg: "\<forall>x\<in>set xs. 0 \<le> f x \<Longrightarrow> 0 \<le> reduce_sum f xs"
  by (auto simp: reduce_sum_eq intro!: sum_list_nonneg)

section \<open>The health score\<close>

lemmas health_defs =
  calculateFinancialHealth_def spendingScore_def savingScore_def budgetingScore_def
  planningScore_def mean4_def reduce_sum_def first_goal_field_def Math_max_def Math_min_def
  num_or_def num_sub_def inf_of_sign_def

lemma spendingScore_range:
  assumes "0 \<le> reduce_sum Expense.amount expenses"
  shows "\<exists>s. spendingScore expenses bs = Fin s \<and> 0 \<le> s \<and> s \<le> 100"
proof (cases "0 < reduce_sum limit bs")
  case True
  let ?q = "reduce_sum Expense.amount expenses / reduce_sum limit bs"
  have "0 \<le> ?q" using assms True by simp
  hence "0 \<le> ?q * 100" by (rule mult_nonneg_nonneg) simp
  hence "max 0 (100 - ?q * 100) \<le> 100" by linarith
  with True show ?thesis
    by (auto simp: spendingScore_def Let_def Math_max_def num_sub_def)
next
  case False
  then show ?thesis by (simp add: spendingScore_def Let_def)
qed

lemma savingScore_Nil: "savingScore [] = Fin 0"
  by (simp add: savingScore_def first_goal_field_def num_or_def Math_min_def)

lemma savingScore_Cons:
  "savingScore (g # gs) =
     (if target g = 0
      then (if current g = 0 then Fin 0 else if 0 < current g then Fin 100 else NegInf)
      else Fin (min 100 (current g / target g * 100)))"
  by (auto simp: savingScore_def first_goal_field_def num_or_def Math_min_def inf_of_sign_def)

lemma savingScore_range:
  assumes "case goals of [] \<Rightarrow> True | g # _ \<Rightarrow> 0 \<le> current g \<and> 0 \<le> target g"
  shows "\<exists>v. savingScore goals = Fin v \<and> 0 \<le> v \<and> v \<le> 100"
proof (cases goals)
  case Nil
  then show ?thesis by (simp add: savingScore_Nil)
next
  case (Cons g gs)
  with assms have "0 \<le> current g" "0 \<le> target g" by simp_all
  then show ?thesis unfolding Cons savingScore_Cons by auto
qed

lemma Math_round_mean4_range:
  assumes "0 \<le> a" "a \<le> 100" "0 \<le> b" "b \<le> 100" "0 \<le> c" "c \<le> 100" "0 \<le> d" "d \<le> 100"
  shows "\<exists>n. Math_round (mean4 (Fin a) (Fin b) (Fin c) (Fin d)) = Fin (of_int n)
             \<and> 0 \<le> n \<and> n \<le> 100"
proof -
  let ?m = "(a + b + c + d) / 4"
  have m: "0 \<le> ?m" "?m \<le> 100" using assms by simp_all
  have "0 \<le> \<lfloor>?m + 1 / 2\<rfloor>" using m by simp
  moreover have "?m + 1 / 2 < 101" using m by linarith
  hence "\<lfloor>?m + 1 / 2\<rfloor> \<le> 100" by (simp add: floor_le_iff)
  ultimately show ?thesis by (simp add: mean4_def)
qed





section \<open>Totals by category\<close>

lemma proto_inherited: "inherited (utf16 ''__proto__'')"
  by (simp add: inherited_def inherited_names_def)

lemma values_update: "snd ` set (AList.update k v m) \<subseteq> insert v (snd ` set m)"
  by (induction m) auto

lemma sum_cells_update:
  "sum_list (map (\<lambda>p. cell_rat (snd p)) (AList.update k w m)) =
     sum_list (map (\<lambda>p. cell_rat (snd p)) m)
       - (case map_of m k of None \<Rightarrow> 0 | Some v \<Rightarrow> cell_rat v) + cell_rat w"
  by (induction m) auto

lemma add_to_category_plain:
  assumes "\<not> inherited (Expense.category t)" and "Text \<notin> snd ` set m"
  shows "add_to_category m t =
           AList.update (Expense.category t)
             (Num ((case map_of m (Expense.category t) of None \<Rightarrow> 0 | Some w \<Rightarrow> cell_rat w)
                   + Expense.amount t)) m"
proof -
  have ne: "Expense.category t \<noteq> utf16 ''__proto__''"
    using assms(1) proto_inherited by auto
  have no_text: "map_of m (Expense.category t) \<noteq> Some Text"
    using assms(2) by (force dest: map_of_SomeD)
  show ?thesis
    using ne no_text assms(1)
    by (cases "map_of m (Expense.category t)")
       (auto simp: add_to_category_def split: cell.split)
qed

lemma add_to_category_chat_plain:
  assumes "\<not> inherited (ChatExpense.category e)" and "Text \<notin> snd ` set m"
  shows "add_to_category_chat m e =
           AList.update (ChatExpense.category e)
             (Num ((case map_of m (ChatExpense.category e) of None \<Rightarrow> 0 | Some w \<Rightarrow> cell_rat w)
                   + ChatExpense.amount e)) m"
proof -
  have ne: "ChatExpense.category e \<noteq> utf16 ''__proto__''"
    using assms(1) proto_inherited by auto
  have no_text: "map_of m (ChatExpense.category e) \<noteq> Some Text"
    using assms(2) by (force dest: map_of_SomeD)
  show ?thesis
    using ne no_text assms(1)
    by (cases "map_of m (ChatExpense.category e)")
       (auto simp: add_to_category_chat_def split: cell.split)
qed

text \<open>
  What follows holds of any step that, on a plain category and a map of numbers, adds
  the amount to the entry of the category.
\<close>

lemma foldl_step_numbers:
  assumes step: "\<And>m t. \<not> inherited (cat t) \<Longrightarrow> Text \<notin> snd ` set m \<Longrightarrow>
      step m t = AList.update (cat t)
        (Num ((case map_of m (cat t) of None \<Rightarrow> 0 | Some w \<Rightarrow> cell_rat w) + amt t)) m"
    and "list_all (\<lambda>t. \<not> inherited (cat t)) xs" and "Text \<notin> snd ` set m"
  shows "Text \<notin> snd ` set (foldl step m xs)"
  using assms(2,3)
proof (induction xs arbitrary: m)
  case Nil
  then show ?case by simp
next
  case (Cons t xs)
  from Cons.prems have t: "\<not> inherited (cat t)" and rest: "list_all (\<lambda>t. \<not> inherited (cat t)) xs"
    by simp_all
  have "Text \<notin> snd ` set (step m t)"
    unfolding step [OF t Cons.prems(2)] using values_update [of "cat t" _ m] Cons.prems(2) by blast
  from Cons.IH [OF rest this] show ?case by simp
qed

lemma foldl_step_sum:
  assumes step: "\<And>m t. \<not> inherited (cat t) \<Longrightarrow> Text \<notin> snd ` set m \<Longrightarrow>
      step m t = AList.update (cat t)
        (Num ((case map_of m (cat t) of None \<Rightarrow> 0 | Some w \<Rightarrow> cell_rat w) + amt t)) m"
    and "list_all (\<lambda>t. \<not> inherited (cat t)) xs" and "Text \<notin> snd ` set m"
  shows "sum_list (map (\<lambda>p. cell_rat (snd p)) (foldl step m xs)) =
           sum_list (map (\<lambda>p. cell_rat (snd p)) m) + sum_list (map amt xs)"
  using assms(2,3)
proof (induction xs arbitrary: m)
  case Nil
  then show ?case by simp
next
  case (Cons t xs)
  from Cons.prems have t: "\<not> inherited (cat t)" and rest: "list_all (\<lambda>t. \<not> inherited (cat t)) xs"
    by simp_all
  have num: "Text \<notin> snd ` set (step m t)"
    using foldl_step_numbers [of cat step amt "[t]" m] step t Cons.prems(2) by simp
  have one: "sum_list (map (\<lambda>p. cell_rat (snd p)) (step m t)) =
               sum_list (map (\<lambda>p. cell_rat (snd p)) m) + amt t"
    unfolding step [OF t Cons.prems(2)]
    by (simp add: sum_cells_update split: option.split)
  show ?case using Cons.IH [OF rest num] one by (simp add: add.assoc)
qed

lemma foldl_step_lookup:
  assumes step: "\<And>m t. \<not> inherited (cat t) \<Longrightarrow> Text \<notin> snd ` set m \<Longrightarrow>
      step m t = AList.update (cat t)
        (Num ((case map_of m (cat t) of None \<Rightarrow> 0 | Some w \<Rightarrow> cell_rat w) + amt t)) m"
    and "list_all (\<lambda>t. \<not> inherited (cat t)) xs" and "Text \<notin> snd ` set m"
  shows "map_of (foldl step m xs) c =
     (if c \<in> fst ` set m \<union> cat ` set xs
      then Some (Num ((case map_of m c of None \<Rightarrow> 0 | Some w \<Rightarrow> cell_rat w)
                      + sum_list (map amt (filter (\<lambda>t. cat t = c) xs))))
      else None)"
  using assms(2,3)
proof (induction xs arbitrary: m)
  case Nil
  have "map_of m c = Some w \<Longrightarrow> w = Num (cell_rat w)" for w
    using Nil.prems(2) by (cases w) (force dest: map_of_SomeD)+
  then show ?case
    by (auto simp: map_of_eq_None_iff [symmetric] split: option.split)
next
  case (Cons t xs)
  from Cons.prems have t: "\<not> inherited (cat t)" and rest: "list_all (\<lambda>t. \<not> inherited (cat t)) xs"
    by simp_all
  have num: "Text \<notin> snd ` set (step m t)"
    using foldl_step_numbers [of cat step amt "[t]" m] step t Cons.prems(2) by simp
  have m': "map_of (step m t) =
      (map_of m)(cat t \<mapsto>
         Num ((case map_of m (cat t) of None \<Rightarrow> 0 | Some w \<Rightarrow> cell_rat w) + amt t))"
    unfolding step [OF t Cons.prems(2)] by (simp add: update_conv')
  have keys: "fst ` set (step m t) = insert (cat t) (fst ` set m)"
    unfolding step [OF t Cons.prems(2)] by (simp add: dom_update)
  show ?case
    by (simp add: Cons.IH [OF rest num] m' keys)
qed

lemma foldl_step_distinct:
  assumes step: "\<And>m t. \<not> inherited (cat t) \<Longrightarrow> Text \<notin> snd ` set m \<Longrightarrow>
      step m t = AList.update (cat t)
        (Num ((case map_of m (cat t) of None \<Rightarrow> 0 | Some w \<Rightarrow> cell_rat w) + amt t)) m"
    and "list_all (\<lambda>t. \<not> inherited (cat t)) xs" and "Text \<notin> snd ` set m"
    and "distinct (map fst m)"
  shows "distinct (map fst (foldl step m xs))"
  using assms(2,3,4)
proof (induction xs arbitrary: m)
  case Nil
  then show ?case by simp
next
  case (Cons t xs)
  from Cons.prems have t: "\<not> inherited (cat t)" and rest: "list_all (\<lambda>t. \<not> inherited (cat t)) xs"
    by simp_all
  have num: "Text \<notin> snd ` set (step m t)"
    using foldl_step_numbers [of cat step amt "[t]" m] step t Cons.prems(2) by simp
  have d: "distinct (map fst (step m t))"
    unfolding step [OF t Cons.prems(2)] using Cons.prems(3) by (simp add: distinct_update)
  show ?case using Cons.IH [OF rest num d] by simp
qed

lemma numbers_are_Num:
  "Text \<notin> snd ` set m \<Longrightarrow> map value' (entries m) = map Num (map (\<lambda>p. cell_rat (snd p)) m)"
proof (induction m)
  case Nil
  show ?case by (simp add: entries_def)
next
  case (Cons p m)
  obtain k v where p: "p = (k, v)" by (cases p)
  from Cons.prems p have v: "v \<noteq> Text" and rest: "Text \<notin> snd ` set m" by auto
  from v have "v = Num (cell_rat v)" by (cases v) simp_all
  with Cons.IH [OF rest] p show ?case by (simp add: entries_def)
qed




section \<open>Anomalies\<close>

lemma plain_list:
  "plain_categories (map Expense.category xs) \<Longrightarrow> list_all (\<lambda>t. \<not> inherited (Expense.category t)) xs"
  by (simp add: plain_categories_def list_all_iff)

lemma totals_lookup:
  assumes "plain_categories (map Expense.category xs)"
  shows "map_of (foldl add_to_category [] xs) c =
     (if c \<in> Expense.category ` set xs then Some (Num (category_total xs c)) else None)"
  using foldl_step_lookup [where cat = Expense.category and amt = Expense.amount
      and step = add_to_category and m = "[]" and xs = xs and c = c]
    plain_list [OF assms] add_to_category_plain
  by (simp add: category_total_def)

lemma totals_distinct:
  assumes "plain_categories (map Expense.category xs)"
  shows "distinct (map fst (foldl add_to_category [] xs))"
  using foldl_step_distinct [where cat = Expense.category and amt = Expense.amount
      and step = add_to_category and m = "[]" and xs = xs]
    plain_list [OF assms] add_to_category_plain
  by simp

lemma find_entries:
  "find (\<lambda>t. name t = c) (entries m) =
     map_option (\<lambda>v. \<lparr> name = c, value' = v \<rparr>) (map_of m c)"
  by (induction m) (auto simp: entries_def)

lemma map_name_entries: "map name (entries m) = map fst m"
  by (induction m) (auto simp: entries_def)

lemma map_of_foldl_update_distinct:
  assumes "distinct (map name totals)" and "\<forall>t\<in>set totals. name t \<noteq> p"
  shows "map_of (foldl (\<lambda>acc cat. if name cat = p then acc
                                   else AList.update (name cat) (f cat) acc) acc totals) c =
           (case find (\<lambda>t. name t = c) totals of
              Some t \<Rightarrow> Some (f t)
            | None \<Rightarrow> map_of acc c)"
  using assms
proof (induction totals arbitrary: acc)
  case Nil
  show ?case by simp
next
  case (Cons t totals)
  from Cons.prems have d: "distinct (map name totals)" and notin: "name t \<notin> name ` set totals"
    and np: "name t \<noteq> p" and rest: "\<forall>t\<in>set totals. name t \<noteq> p"
    by simp_all
  have none: "find (\<lambda>u. name u = name t) totals = None"
    unfolding find_None_iff using notin by (metis imageI)
  show ?case
  proof (cases "name t = c")
    case True
    with none have "find (\<lambda>u. name u = c) totals = None" by simp
    with True np show ?thesis by (simp add: Cons.IH [OF d rest] update_conv')
  next
    case False
    with np show ?thesis by (simp add: Cons.IH [OF d rest] update_conv' split: option.split)
  qed
qed

lemma count_pos:
  "c \<in> Expense.category ` set xs \<Longrightarrow> 0 < length (filter (\<lambda>e. Expense.category e = c) xs)"
  by (auto simp: length_greater_0_conv filter_empty_conv)

lemma avg_lookup:
  assumes "plain_categories (map Expense.category xs)" and "c \<in> Expense.category ` set xs"
  shows "map_of (avgByCategory xs (totalsByCategory xs)) c = Some (Fin (category_mean xs c))"
proof -
  have d: "distinct (map name (totalsByCategory xs))"
    by (simp add: totalsByCategory_def map_name_entries totals_distinct [OF assms(1)])
  have np: "\<forall>t\<in>set (totalsByCategory xs). name t \<noteq> utf16 ''__proto__''"
  proof
    fix t assume "t \<in> set (totalsByCategory xs)"
    hence "name t \<in> fst ` set (foldl add_to_category [] xs)"
      using map_name_entries [of "foldl add_to_category [] xs"]
      by (metis totalsByCategory_def imageI set_map)
    hence "map_of (foldl add_to_category [] xs) (name t) \<noteq> None"
      by (simp add: map_of_eq_None_iff)
    hence "name t \<in> Expense.category ` set xs"
      by (simp add: totals_lookup [OF assms(1)] split: if_splits)
    with plain_list [OF assms(1)] have "\<not> inherited (name t)"
      by (auto simp: list_all_iff)
    with proto_inherited show "name t \<noteq> utf16 ''__proto__''" by auto
  qed
  have f: "find (\<lambda>t. name t = c) (totalsByCategory xs) =
             Some \<lparr> name = c, value' = Num (category_total xs c) \<rparr>"
    using assms(2) by (simp add: totalsByCategory_def find_entries totals_lookup [OF assms(1)])
  have n: "filter (\<lambda>e. Expense.category e = c) xs \<noteq> []"
    using count_pos [OF assms(2)] by simp
  show ?thesis
    unfolding avgByCategory_def
    using n
    by (simp add: map_of_foldl_update_distinct [OF d np] f category_mean_def category_total_def)
qed

lemma anomalous_iff:
  assumes "plain_categories (map Expense.category xs)" and "e \<in> set xs"
  shows "num_gt (Fin (Expense.amount e))
           (doubled_average (avgByCategory xs (totalsByCategory xs)) (Expense.category e))
         = is_anomalous xs e"
proof -
  have "Expense.category e \<in> Expense.category ` set xs" using assms(2) by simp
  from avg_lookup [OF assms(1) this] show ?thesis
    by (simp add: doubled_average_def is_anomalous_def num_or_def num_gt_def mult.commute)
qed




section \<open>Budget optimisation\<close>

lemma categorySpend_eq:
  assumes "plain_categories (map Expense.category xs)"
  shows "categorySpend xs c = Fin (category_total xs c)"
proof (cases "c \<in> Expense.category ` set xs")
  case True
  then show ?thesis
    by (simp add: categorySpend_def totalsByCategory_def find_entries totals_lookup [OF assms]
          num_or_def)
next
  case False
  then have "filter (\<lambda>t. Expense.category t = c) xs = []"
    by (auto simp: filter_empty_conv)
  with False show ?thesis
    by (simp add: categorySpend_def totalsByCategory_def find_entries totals_lookup [OF assms]
          category_total_def)
qed

lemma optimizedAmount_eq:
  "plain_categories (map Expense.category xs) \<Longrightarrow>
     optimizedAmount xs c = Fin (of_int \<lfloor>category_total xs c * (11 / 10) + 1 / 2\<rfloor>)"
  by (simp add: optimizedAmount_def categorySpend_eq)




section \<open>Monthly projection\<close>




section \<open>Trend series\<close>

lemma foldl_num_add_Fin:
  "list_all (\<lambda>d. spend d = Fin (finite_value (spend d))) days \<Longrightarrow>
     foldl (\<lambda>s day. num_add s (spend day)) (Fin a) days =
       Fin (a + sum_list (map (\<lambda>d. finite_value (spend d)) days))"
proof (induction days arbitrary: a)
  case Nil
  show ?case by simp
next
  case (Cons d days)
  from Cons.prems have d: "spend d = Fin (finite_value (spend d))"
    and rest: "list_all (\<lambda>d. spend d = Fin (finite_value (spend d))) days" by simp_all
  have "foldl (\<lambda>s day. num_add s (spend day)) (Fin a) (d # days) =
        foldl (\<lambda>s day. num_add s (spend day)) (num_add (Fin a) (Fin (finite_value (spend d)))) days"
    using d by simp
  also have "\<dots> = Fin (a + finite_value (spend d) + sum_list (map (\<lambda>d. finite_value (spend d)) days))"
    by (simp add: Cons.IH [OF rest])
  finally show ?case by (simp add: add.assoc)
qed

lemma sum_spend_finite:
  "finite_spends days \<Longrightarrow> sum_spend days = Fin (sum_list (map (\<lambda>d. finite_value (spend d)) days))"
  by (simp add: sum_spend_def finite_spends_def foldl_num_add_Fin)

lemma spend_predictedDay:
  assumes "finite_spends days" "days \<noteq> []"
  shows "spend (predictedDay env days i) =
           Fin (of_int \<lfloor>mean_spend days * (4 / 5 + random env i * (2 / 5)) + 1 / 2\<rfloor>)"
  using assms
  by (simp add: predictedDay_def Let_def sum_spend_finite jitter_def mean_spend_def)

lemma finite_spends_append:
  "finite_spends (xs @ ys) \<longleftrightarrow> finite_spends xs \<and> finite_spends ys"
  by (simp add: finite_spends_def)

lemma finite_spends_extend:
  assumes "finite_spends days" "days \<noteq> []"
  shows "finite_spends (days @ [predictedDay env days i])"
  using assms spend_predictedDay [OF assms, of env i]
  by (simp add: finite_spends_def finite_value_def)

lemma foldl_extend:
  "length (foldl (\<lambda>days i. days @ [predictedDay env days i]) ds js) = length ds + length js
   \<and> take (length ds) (foldl (\<lambda>days i. days @ [predictedDay env days i]) ds js) = ds
   \<and> (\<forall>j<length js.
         foldl (\<lambda>days i. days @ [predictedDay env days i]) ds js ! (length ds + j) =
           predictedDay env
             (take (length ds + j) (foldl (\<lambda>days i. days @ [predictedDay env days i]) ds js))
             (js ! j))"
proof (induction js arbitrary: ds)
  case Nil
  show ?case by simp
next
  case (Cons i js)
  let ?ds' = "ds @ [predictedDay env ds i]"
  let ?r = "foldl (\<lambda>days i. days @ [predictedDay env days i]) ?ds' js"
  note IH = Cons.IH [of ?ds']
  from IH have len: "length ?r = length ds + 1 + length js" by simp
  from IH have tk: "take (length ds + 1) ?r = ?ds'" by simp
  have tk0: "take (length ds) ?r = ds"
  proof -
    have "take (length ds) ?r = take (length ds) (take (length ds + 1) ?r)" by simp
    also have "\<dots> = ds" unfolding tk by simp
    finally show ?thesis .
  qed
  have nth0: "?r ! length ds = predictedDay env ds i"
  proof -
    have "?r ! length ds = take (length ds + 1) ?r ! length ds" by simp
    also have "\<dots> = predictedDay env ds i" unfolding tk by simp
    finally show ?thesis .
  qed
  have step: "?r ! (length ds + j) = predictedDay env (take (length ds + j) ?r) ((i # js) ! j)"
    if "j < length (i # js)" for j
  proof (cases j)
    case 0
    then show ?thesis by (simp add: nth0 tk0)
  next
    case (Suc j')
    with that have "j' < length js" by simp
    with IH have "?r ! (length ?ds' + j') = predictedDay env (take (length ?ds' + j') ?r) (js ! j')"
      by blast
    then show ?thesis using Suc by simp
  qed
  show ?case using len tk0 step by simp
qed

lemma finite_spends_foldl:
  "finite_spends ds \<Longrightarrow> ds \<noteq> [] \<Longrightarrow>
     finite_spends (foldl (\<lambda>days i. days @ [predictedDay env days i]) ds js)"
proof (induction js arbitrary: ds)
  case Nil
  then show ?case by simp
next
  case (Cons i js)
  show ?case
    using Cons.IH [of "ds @ [predictedDay env ds i]"] finite_spends_extend [OF Cons.prems]
    by simp
qed

lemma actualDays_facts:
  "length (actualDays env xs) = 12" "finite_spends (actualDays env xs)"
  by (simp_all add: actualDays_def finite_spends_def list_all_iff actualDay_def finite_value_def)

lemma finite_spends_take: "finite_spends days \<Longrightarrow> finite_spends (take n days)"
  by (auto simp: finite_spends_def list_all_iff dest: in_set_takeD)




section \<open>Message operations leave the other chats alone\<close>

lemma nth_append_message:
  "i < length cs \<Longrightarrow>
     append_message cid m cs ! i =
       (if Chat.id (cs ! i) = cid then (cs ! i) \<lparr> messages := messages (cs ! i) @ [m] \<rparr> else cs ! i)"
  by (simp add: append_message_def)

lemma nth_patch_message:
  "i < length cs \<Longrightarrow>
     patch_message cid mid p cs ! i =
       (if Chat.id (cs ! i) = cid
        then (cs ! i) \<lparr> messages :=
               map (\<lambda>m. if Message.id m = mid then apply_patch m p else m) (messages (cs ! i)) \<rparr>
        else cs ! i)"
  by (simp add: patch_message_def)

lemma nth_remove_message:
  "i < length cs \<Longrightarrow>
     remove_message cid mid cs ! i =
       (if Chat.id (cs ! i) = cid
        then (cs ! i) \<lparr> messages := filter (\<lambda>m. Message.id m \<noteq> mid) (messages (cs ! i)) \<rparr>
        else cs ! i)"
  by (simp add: remove_message_def)

lemma length_message_ops [simp]:
  "length (append_message cid m cs) = length cs"
  "length (patch_message cid mid p cs) = length cs"
  "length (remove_message cid mid cs) = length cs"
  by (simp_all add: append_message_def patch_message_def remove_message_def)

text \<open>
  C10. Appending a message to a chat, patching a message of a chat and deleting a
  message from a chat keep the number of chats, and every chat whose identifier is not
  the target's is, at its position, the chat it was: the same record, so the same
  identifier, title, creation time and list of messages.
\<close>

theorem message_operations_frame:
  "length (chats (snd (addMessageToChat stamp cid r c st))) = length (chats st)
   \<and> length (chats (updateMessageInChat cid mid p st)) = length (chats st)
   \<and> length (chats (deleteMessageFromChat cid mid st)) = length (chats st)
   \<and> (\<forall>i<length (chats st). Chat.id (chats st ! i) \<noteq> cid \<longrightarrow>
         chats (snd (addMessageToChat stamp cid r c st)) ! i = chats st ! i
         \<and> chats (updateMessageInChat cid mid p st) ! i = chats st ! i
         \<and> chats (deleteMessageFromChat cid mid st) ! i = chats st ! i)"
  by (simp add: addMessageToChat_def updateMessageInChat_def deleteMessageFromChat_def Let_def
        nth_append_message nth_patch_message nth_remove_message)

text \<open>
  The theorem on a collection of two chats, \<open>a\<close> and \<open>b\<close>: appending to \<open>a\<close>, patching
  in \<open>a\<close> and deleting from \<open>a\<close> each leave the chat \<open>b\<close> as it was.
\<close>

theorem message_operations_frame_witness:
  "chats (snd (addMessageToChat (utf16 ''u1'', utf16 ''t1'') (utf16 ''a'') User (utf16 ''hi'')
     \<lparr> chats = [\<lparr> Chat.id = utf16 ''a'', title = utf16 ''A'', createdAt = [],
            messages = [\<lparr> Message.id = utf16 ''m0'', role = System, content = utf16 ''sys'', ts = [], pinned = None \<rparr>] \<rparr>,
          \<lparr> Chat.id = utf16 ''b'', title = utf16 ''B'', createdAt = [], messages = [] \<rparr>],
       composerText = utf16 ''hi'', sending = False, streamedTextTemp = [],
       systemPrompt = utf16 ''sys'', tone = Concise, streamEnabled = True, maxTokens = 512 \<rparr>)) ! 1
     = \<lparr> Chat.id = utf16 ''b'', title = utf16 ''B'', createdAt = [], messages = [] \<rparr>
   \<and> chats (updateMessageInChat (utf16 ''a'') (utf16 ''m0'') (content_patch (utf16 ''new''))
     \<lparr> chats = [\<lparr> Chat.id = utf16 ''a'', title = utf16 ''A'', createdAt = [],
            messages = [\<lparr> Message.id = utf16 ''m0'', role = System, content = utf16 ''sys'', ts = [], pinned = None \<rparr>] \<rparr>,
          \<lparr> Chat.id = utf16 ''b'', title = utf16 ''B'', createdAt = [], messages = [] \<rparr>],
       composerText = utf16 ''hi'', sending = False, streamedTextTemp = [],
       systemPrompt = utf16 ''sys'', tone = Concise, streamEnabled = True, maxTokens = 512 \<rparr>) ! 1
     = \<lparr> Chat.id = utf16 ''b'', title = utf16 ''B'', createdAt = [], messages = [] \<rparr>
   \<and> chats (deleteMessageFromChat (utf16 ''a'') (utf16 ''m0'')
     \<lparr> chats = [\<lparr> Chat.id = utf16 ''a'', title = utf16 ''A'', createdAt = [],
            messages = [\<lparr> Message.id = utf16 ''m0'', role = System, content = utf16 ''sys'', ts = [], pinned = None \<rparr>] \<rparr>,
          \<lparr> Chat.id = utf16 ''b'', title = utf16 ''B'', createdAt = [], messages = [] \<rparr>],
       composerText = utf16 ''hi'', sending = False, streamedTextTemp = [],
       systemPrompt = utf16 ''sys'', tone = Concise, streamEnabled = True, maxTokens = 512 \<rparr>) ! 1
     = \<lparr> Chat.id = utf16 ''b'', title = utf16 ''B'', createdAt = [], messages = [] \<rparr>"
proof -
  let ?st = "\<lparr> chats = [\<lparr> Chat.id = utf16 ''a'', title = utf16 ''A'', createdAt = [],
            messages = [\<lparr> Message.id = utf16 ''m0'', role = System, content = utf16 ''sys'', ts = [], pinned = None \<rparr>] \<rparr>,
          \<lparr> Chat.id = utf16 ''b'', title = utf16 ''B'', createdAt = [], messages = [] \<rparr>],
       composerText = utf16 ''hi'', sending = False, streamedTextTemp = [],
       systemPrompt = utf16 ''sys'', tone = Concise, streamEnabled = True, maxTokens = 512 \<rparr>"
  note inst = message_operations_frame [of "(utf16 ''u1'', utf16 ''t1'')" "utf16 ''a''" User
      "utf16 ''hi''" ?st "utf16 ''m0''" "content_patch (utf16 ''new'')"]
  have i: "1 < length (chats ?st)" by simp
  have other: "Chat.id (chats ?st ! 1) \<noteq> utf16 ''a''" by (simp add: utf16_def)
  have b: "chats ?st ! 1 = \<lparr> Chat.id = utf16 ''b'', title = utf16 ''B'', createdAt = [], messages = [] \<rparr>" by simp
  from inst i other
  have "chats (snd (addMessageToChat (utf16 ''u1'', utf16 ''t1'') (utf16 ''a'') User (utf16 ''hi'') ?st)) ! 1
          = chats ?st ! 1
        \<and> chats (updateMessageInChat (utf16 ''a'') (utf16 ''m0'') (content_patch (utf16 ''new'')) ?st) ! 1
          = chats ?st ! 1
        \<and> chats (deleteMessageFromChat (utf16 ''a'') (utf16 ''m0'') ?st) ! 1 = chats ?st ! 1"
    by blast
  then show ?thesis unfolding b .
qed

section \<open>Sending: an error status\<close>

lemma sendChatMessage_returns: "\<exists>st'. sendChatMessage env cid userText st = Returned st'"
  by (simp add: sendChatMessage_def Let_def split: prod.split outcome.split)

lemma errorText_boom:
  "json_result res = Inr (JObject [(utf16 ''error'', JString (utf16 ''boom''))]) \<Longrightarrow>
     errorText env res = utf16 ''boom''"
  by (simp add: errorText_def coalesce_def to_string_def)

lemma send_http_error:
  assumes "trim userText \<noteq> []"
    and "fetch env \<lparr> message = trim userText, chatId = cid,
            systemPrompt = ChatCenter.systemPrompt st, tone = ChatCenter.tone st,
            stream = streamEnabled st, maxTokens = ChatCenter.maxTokens st \<rparr> = Resolves res"
    and "\<not> ok res"
  shows "sendChatMessage env cid userText st =
     Returned (st \<lparr> chats :=
                  patch_message cid (fst (assistantStamp env))
                    (content_patch (warning @ errorText env res))
                    (append_message cid (new_message (assistantStamp env) Assistant thinking)
                      (append_message cid (new_message (userStamp env) User (trim userText))
                        (chats st))),
                composerText := [], sending := False,
                streamedTextTemp :=
                  AList.update (fst (assistantStamp env)) [] (streamedTextTemp st) \<rparr>)"
  using assms
  by (simp add: sendChatMessage_def send_try_def addMessageToChat_def updateMessageInChat_def
        Let_def new_message_def)




section \<open>Sending: a streamed reply\<close>

lemma read_loop_three_chunks:
  "read_loop parse onChunk
     [Chunk (utf16 ''Hel''), Chunk (utf16 ''lo wor''), Chunk (utf16 ''ld'')] [] s =
   Returned (onChunk (utf16 ''ld'') (onChunk (utf16 ''lo wor'') (onChunk (utf16 ''Hel'') s)))"
  by (simp add: utf16_def Let_def)

lemma onChunk_send_three:
  "onChunk_send cid aid (utf16 ''ld'')
     (onChunk_send cid aid (utf16 ''lo wor'') (onChunk_send cid aid (utf16 ''Hel'') ([], st))) =
   (utf16 ''Hello world'',
    st \<lparr> chats :=
           patch_message cid aid (content_patch (utf16 ''Hello world''))
             (patch_message cid aid (content_patch (utf16 ''Hello wor''))
               (patch_message cid aid (content_patch (utf16 ''Hel'')) (chats st))),
         streamedTextTemp :=
           AList.update aid (utf16 ''Hello world'')
             (AList.update aid (utf16 ''Hello wor'')
               (AList.update aid (utf16 ''Hel'') (streamedTextTemp st))) \<rparr>)"
  by (simp add: onChunk_send_def updateMessageInChat_def Let_def utf16_def)

lemma send_stream_three_chunks:
  assumes "trim userText \<noteq> []"
    and "fetch env \<lparr> message = trim userText, chatId = cid,
            systemPrompt = ChatCenter.systemPrompt st, tone = ChatCenter.tone st,
            stream = streamEnabled st, maxTokens = ChatCenter.maxTokens st \<rparr> = Resolves res"
    and "ok res"
    and "body res = Some [Chunk (utf16 ''Hel''), Chunk (utf16 ''lo wor''), Chunk (utf16 ''ld'')]"
    and "streamEnabled st"
  shows "sendChatMessage env cid userText st =
     Returned (st \<lparr> chats :=
                  patch_message cid (fst (assistantStamp env)) (content_patch (utf16 ''Hello world''))
                    (patch_message cid (fst (assistantStamp env)) (content_patch (utf16 ''Hello wor''))
                      (patch_message cid (fst (assistantStamp env)) (content_patch (utf16 ''Hel''))
                        (append_message cid (new_message (assistantStamp env) Assistant thinking)
                          (append_message cid (new_message (userStamp env) User (trim userText))
                            (chats st))))),
                composerText := [], sending := False,
                streamedTextTemp :=
                  AList.delete (fst (assistantStamp env))
                    (AList.update (fst (assistantStamp env)) (utf16 ''Hello world'')
                      (AList.update (fst (assistantStamp env)) (utf16 ''Hello wor'')
                        (AList.update (fst (assistantStamp env)) (utf16 ''Hel'')
                          (AList.update (fst (assistantStamp env)) []
                            (streamedTextTemp st))))) \<rparr>)"
  using assms
  by (simp add: sendChatMessage_def send_try_def addMessageToChat_def Let_def new_message_def
        streamTextFromResponse_def read_loop_three_chunks onChunk_send_three onComplete_send_def
      del: read_loop.simps)

text \<open>
  C8. Let the text be other than white space only, streaming be enabled, and the request
  resolve to a successful response whose body delivers the chunks \<open>Hel\<close>, \<open>lo wor\<close>
  and \<open>ld\<close>. The assembler calls its chunk callback once for each chunk, in order, and
  nothing else before completion. The callback of the send operation turns the text
  accumulated so far and a chunk into their concatenation and patches the placeholder
  with it: \<open>Hel\<close>, then \<open>Hello wor\<close>, then \<open>Hello world\<close>. The send returns with the
  chats patched three times in that order, and in every chat with the target identifier,
  which has two messages more, the last message is the assistant's with content
  \<open>Hello world\<close>.
\<close>

theorem streaming_assembles_hello_world:
  assumes "trim userText \<noteq> []"
    and "fetch env \<lparr> message = trim userText, chatId = cid,
            systemPrompt = ChatCenter.systemPrompt st, tone = ChatCenter.tone st,
            stream = streamEnabled st, maxTokens = ChatCenter.maxTokens st \<rparr> = Resolves res"
    and "ok res"
    and "body res = Some [Chunk (utf16 ''Hel''), Chunk (utf16 ''lo wor''), Chunk (utf16 ''ld'')]"
    and "streamEnabled st"
  shows "streamTextFromResponse parse res onChunk (Some onComplete) s =
           Returned (onComplete
             (onChunk (utf16 ''ld'') (onChunk (utf16 ''lo wor'') (onChunk (utf16 ''Hel'') s))))
   \<and> fst (onChunk_send cid aid (utf16 ''Hel'') ([], st0)) = utf16 ''Hel''
   \<and> fst (onChunk_send cid aid (utf16 ''lo wor'') (utf16 ''Hel'', st1)) = utf16 ''Hello wor''
   \<and> fst (onChunk_send cid aid (utf16 ''ld'') (utf16 ''Hello wor'', st2)) = utf16 ''Hello world''
   \<and> chats (snd (onChunk_send cid aid chunk (acc, st3))) =
         patch_message cid aid (content_patch (acc @ chunk)) (chats st3)
   \<and> (\<exists>st'. sendChatMessage env cid userText st = Returned st'
         \<and> chats st' =
             patch_message cid (fst (assistantStamp env)) (content_patch (utf16 ''Hello world''))
               (patch_message cid (fst (assistantStamp env)) (content_patch (utf16 ''Hello wor''))
                 (patch_message cid (fst (assistantStamp env)) (content_patch (utf16 ''Hel''))
                   (append_message cid (new_message (assistantStamp env) Assistant thinking)
                     (append_message cid (new_message (userStamp env) User (trim userText))
                       (chats st)))))
         \<and> (\<forall>i<length (chats st). Chat.id (chats st ! i) = cid \<longrightarrow>
               length (messages (chats st' ! i)) = length (messages (chats st ! i)) + 2
               \<and> last (messages (chats st' ! i)) =
                   \<lparr> Message.id = fst (assistantStamp env), role = Assistant,
                     content = utf16 ''Hello world'', ts = snd (assistantStamp env),
                     pinned = None \<rparr>))"
proof -
  have stream: "streamTextFromResponse parse res onChunk (Some onComplete) s =
           Returned (onComplete
             (onChunk (utf16 ''ld'') (onChunk (utf16 ''lo wor'') (onChunk (utf16 ''Hel'') s))))"
    by (simp add: streamTextFromResponse_def assms(4) read_loop_three_chunks
          del: read_loop.simps)
  have acc: "fst (onChunk_send cid aid (utf16 ''Hel'') ([], st0)) = utf16 ''Hel''"
    "fst (onChunk_send cid aid (utf16 ''lo wor'') (utf16 ''Hel'', st1)) = utf16 ''Hello wor''"
    "fst (onChunk_send cid aid (utf16 ''ld'') (utf16 ''Hello wor'', st2)) = utf16 ''Hello world''"
    "chats (snd (onChunk_send cid aid chunk (acc, st3))) =
         patch_message cid aid (content_patch (acc @ chunk)) (chats st3)"
    by (simp_all add: onChunk_send_def updateMessageInChat_def Let_def utf16_def)
  note eq = send_stream_three_chunks [OF assms]
  have send: "\<exists>st'. sendChatMessage env cid userText st = Returned st'
         \<and> chats st' =
             patch_message cid (fst (assistantStamp env)) (content_patch (utf16 ''Hello world''))
               (patch_message cid (fst (assistantStamp env)) (content_patch (utf16 ''Hello wor''))
                 (patch_message cid (fst (assistantStamp env)) (content_patch (utf16 ''Hel''))
                   (append_message cid (new_message (assistantStamp env) Assistant thinking)
                     (append_message cid (new_message (userStamp env) User (trim userText))
                       (chats st)))))
         \<and> (\<forall>i<length (chats st). Chat.id (chats st ! i) = cid \<longrightarrow>
               length (messages (chats st' ! i)) = length (messages (chats st ! i)) + 2
               \<and> last (messages (chats st' ! i)) =
                   \<lparr> Message.id = fst (assistantStamp env), role = Assistant,
                     content = utf16 ''Hello world'', ts = snd (assistantStamp env),
                     pinned = None \<rparr>)"
    unfolding eq
    by (simp add: nth_append_message nth_patch_message new_message_def apply_patch_def
          content_patch_def)
  show ?thesis using stream acc send by blast
qed

text \<open>
  The theorem for the text \<open>hi\<close> sent to the chat \<open>a\<close> of a collection of two chats, the
  response streaming the three chunks: the send returns and the last message of the
  chat is the assistant's, with content \<open>Hello world\<close>.
\<close>

theorem streaming_assembles_hello_world_witness:
  "\<exists>st'. sendChatMessage
       \<lparr> userStamp = (utf16 ''u1'', utf16 ''t1''), assistantStamp = (utf16 ''a1'', utf16 ''t2''),
       fetch = (\<lambda>p. Resolves
         \<lparr> ok = True, status = 200,
         body = Some [Chunk (utf16 ''Hel''), Chunk (utf16 ''lo wor''), Chunk (utf16 ''ld'')],
         json_result = Inl [], text_result = Inl [] \<rparr>),
       JSON_parse = (\<lambda>s. None), JSON_stringify = (\<lambda>j. []), String_of = (\<lambda>v. []) \<rparr>
       (utf16 ''a'') (utf16 ''hi'')
       \<lparr> chats = [\<lparr> Chat.id = utf16 ''a'', title = utf16 ''A'', createdAt = [],
            messages = [\<lparr> Message.id = utf16 ''m0'', role = System, content = utf16 ''sys'', ts = [], pinned = None \<rparr>] \<rparr>,
          \<lparr> Chat.id = utf16 ''b'', title = utf16 ''B'', createdAt = [], messages = [] \<rparr>],
       composerText = utf16 ''hi'', sending = False, streamedTextTemp = [],
       systemPrompt = utf16 ''sys'', tone = Concise, streamEnabled = True, maxTokens = 512 \<rparr> = Returned st'
     \<and> length (messages (chats st' ! 0)) = 3
     \<and> last (messages (chats st' ! 0)) =
          \<lparr> Message.id = utf16 ''a1'', role = Assistant, content = utf16 ''Hello world'',
            ts = utf16 ''t2'', pinned = None \<rparr>"
proof -
  let ?res = "\<lparr> ok = True, status = 200,
         body = Some [Chunk (utf16 ''Hel''), Chunk (utf16 ''lo wor''), Chunk (utf16 ''ld'')],
         json_result = Inl [], text_result = Inl [] \<rparr>"
  let ?env = "\<lparr> userStamp = (utf16 ''u1'', utf16 ''t1''), assistantStamp = (utf16 ''a1'', utf16 ''t2''),
       fetch = (\<lambda>p. Resolves
         \<lparr> ok = True, status = 200,
         body = Some [Chunk (utf16 ''Hel''), Chunk (utf16 ''lo wor''), Chunk (utf16 ''ld'')],
         json_result = Inl [], text_result = Inl [] \<rparr>),
       JSON_parse = (\<lambda>s. None), JSON_stringify = (\<lambda>j. []), String_of = (\<lambda>v. []) \<rparr>"
  let ?st = "\<lparr> chats = [\<lparr> Chat.id = utf16 ''a'', title = utf16 ''A'', createdAt = [],
            messages = [\<lparr> Message.id = utf16 ''m0'', role = System, content = utf16 ''sys'', ts = [], pinned = None \<rparr>] \<rparr>,
          \<lparr> Chat.id = utf16 ''b'', title = utf16 ''B'', createdAt = [], messages = [] \<rparr>],
       composerText = utf16 ''hi'', sending = False, streamedTextTemp = [],
       systemPrompt = utf16 ''sys'', tone = Concise, streamEnabled = True, maxTokens = 512 \<rparr>"
  have h1: "trim (utf16 ''hi'') \<noteq> []"
    by (simp add: trim_def isWhiteSpace_def utf16_def)
  have h2: "fetch ?env \<lparr> message = trim (utf16 ''hi''), chatId = utf16 ''a'',
            systemPrompt = ChatCenter.systemPrompt ?st, tone = ChatCenter.tone ?st,
            stream = streamEnabled ?st, maxTokens = ChatCenter.maxTokens ?st \<rparr> = Resolves ?res"
    by simp
  have h3: "ok ?res" by simp
  have h4: "body ?res = Some [Chunk (utf16 ''Hel''), Chunk (utf16 ''lo wor''), Chunk (utf16 ''ld'')]"
    by simp
  have h5: "streamEnabled ?st" by simp
  note send = streaming_assembles_hello_world [OF h1 h2 h3 h4 h5, THEN conjunct2,
      THEN conjunct2, THEN conjunct2, THEN conjunct2, THEN conjunct2]
  from send
  obtain st' where r: "sendChatMessage ?env (utf16 ''a'') (utf16 ''hi'') ?st = Returned st'"
    and each: "\<forall>i<length (chats ?st). Chat.id (chats ?st ! i) = utf16 ''a'' \<longrightarrow>
               length (messages (chats st' ! i)) = length (messages (chats ?st ! i)) + 2
               \<and> last (messages (chats st' ! i)) =
                   \<lparr> Message.id = fst (assistantStamp ?env), role = Assistant,
                     content = utf16 ''Hello world'', ts = snd (assistantStamp ?env),
                     pinned = None \<rparr>"
    by blast
  have i: "0 < length (chats ?st)" and a: "Chat.id (chats ?st ! 0) = utf16 ''a''" by simp_all
  from each i a
  have "length (messages (chats st' ! 0)) = length (messages (chats ?st ! 0)) + 2
        \<and> last (messages (chats st' ! 0)) =
            \<lparr> Message.id = fst (assistantStamp ?env), role = Assistant,
              content = utf16 ''Hello world'', ts = snd (assistantStamp ?env),
              pinned = None \<rparr>"
    by blast
  hence "length (messages (chats st' ! 0)) = 3
        \<and> last (messages (chats st' ! 0)) =
            \<lparr> Message.id = utf16 ''a1'', role = Assistant, content = utf16 ''Hello world'',
              ts = utf16 ''t2'', pinned = None \<rparr>"
    by simp
  with r show ?thesis by blast
qed

end
